theory Spec2Isabelle
  imports Complex_Main "HOL-Library.Multiset" "HOL-Library.Log_Nat"
begin

section \<open>JavaScript numbers\<close>

text \<open>
  A JavaScript number is an IEEE 754 double: a finite value, which is a rational, one of
  the two infinities, or NaN. The two zeros are one value here: they differ in no
  comparison and in no sum or maximum that the code below computes. Every double is a
  value of \<open>number\<close>; what is proved for all values of the type holds for all doubles.
\<close>

datatype number = Num rat | PosInfinity | NegInfinity | NaN

text \<open>
  Rounding of an exact result to the nearest double, ties to the even significand:
  53 significant bits, the exponent of the least significant bit from \<open>-1074\<close> to \<open>971\<close>,
  overflow to an infinity from \<open>2 ^ 1024\<close> on. \<open>ilog2 x\<close> is the exponent of the leading bit of
  a positive \<open>x\<close>.
\<close>

definition pow2 :: "int \<Rightarrow> rat" where
  "pow2 k = (if 0 \<le> k then 2 ^ nat k else 1 / 2 ^ nat (- k))"

definition ilog2 :: "rat \<Rightarrow> int" where
  "ilog2 x = (if 1 \<le> x then bitlen \<lfloor>x\<rfloor> - 1 else - bitlen (\<lceil>1 / x\<rceil> - 1))"

definition round_half_even :: "rat \<Rightarrow> int" where
  "round_half_even z =
     (let f = \<lfloor>z\<rfloor>; d = z - of_int f
      in if d < 1 / 2 then f else if 1 / 2 < d then f + 1 else if even f then f else f + 1)"

definition round64 :: "rat \<Rightarrow> number" where
  "round64 x =
     (if x = 0 then Num 0
      else
        (let k = max (ilog2 \<bar>x\<bar>) (- 1022) - 52;
             y = of_int (round_half_even (x / pow2 k)) * pow2 k
         in if 2 ^ 1024 \<le> \<bar>y\<bar> then (if 0 < x then PosInfinity else NegInfinity)
            else Num y))"

text \<open>\<^verbatim>\<open>a + b\<close>, \<^verbatim>\<open>a < b\<close>, \<^verbatim>\<open>a >= b\<close> and \<^verbatim>\<open>Math.max(a, b)\<close> on numbers.\<close>

fun js_add :: "number \<Rightarrow> number \<Rightarrow> number" where
  "js_add (Num a) (Num b) = round64 (a + b)"
| "js_add NaN _ = NaN"
| "js_add _ NaN = NaN"
| "js_add PosInfinity NegInfinity = NaN"
| "js_add NegInfinity PosInfinity = NaN"
| "js_add PosInfinity _ = PosInfinity"
| "js_add _ PosInfinity = PosInfinity"
| "js_add NegInfinity _ = NegInfinity"
| "js_add _ NegInfinity = NegInfinity"

fun js_less :: "number \<Rightarrow> number \<Rightarrow> bool" where
  "js_less NaN _ = False"
| "js_less _ NaN = False"
| "js_less (Num a) (Num b) = (a < b)"
| "js_less PosInfinity _ = False"
| "js_less _ PosInfinity = True"
| "js_less NegInfinity NegInfinity = False"
| "js_less NegInfinity _ = True"
| "js_less _ NegInfinity = False"

definition js_ge :: "number \<Rightarrow> number \<Rightarrow> bool" where
  "js_ge a b = (a \<noteq> NaN \<and> b \<noteq> NaN \<and> \<not> js_less a b)"

definition js_max :: "number \<Rightarrow> number \<Rightarrow> number" where
  "js_max a b = (if a = NaN \<or> b = NaN then NaN else if js_less a b then b else a)"

section \<open>Data model\<close>

text \<open>
  A JSON value of a request body, for the one path whose type the handlers do not fix.
\<close>

datatype json =
  JNull | JBool bool | JNum number | JStr string | JArr "json list"
  | JObj "(string \<times> json) list"

text \<open>
  The three Mongoose schemas of the backend (\<^verbatim>\<open>menuItemSchema\<close>, \<^verbatim>\<open>orderSchema\<close>,
  \<^verbatim>\<open>cartSchema\<close>) as records. A document carries its \<^verbatim>\<open>_id\<close> in the field \<open>oid\<close>, in the
  canonical string form of an ObjectId. The quantity of an item, which the client
  computes with, is a \<open>number\<close> (an absent quantity behaves as NaN in every operation of
  the client). Prices, which no function here computes with, are rationals, and time
  stamps (milliseconds, \<^verbatim>\<open>Date.now()\<close>), which are only compared, are integers. An optional
  path of a schema is an \<open>option\<close>.
\<close>

type_synonym objectId = string

record menuItem =
  oid :: objectId
  name :: string
  description :: string
  price :: rat
  category :: string
  available :: bool
  imageUrl :: "string option"
  createdAt :: int

record item =
  name :: string
  price :: rat
  quantity :: number

record customerInfo =
  name :: "string option"
  email :: "string option"
  phone :: "string option"

text \<open>
  The JSON body of an order-create request: the five paths the handler destructures, and
  \<^verbatim>\<open>status\<close>, which a caller may send and the handler does not read. \<^verbatim>\<open>items\<close> is absent
  or an array of items; \<^verbatim>\<open>status\<close> is absent or a string; \<^verbatim>\<open>sessionId\<close> is absent or any JSON
  value, since the handler passes it on as it comes.
\<close>

record orderBody =
  items :: "item list option"
  totalPrice :: "rat option"
  customerInfo :: "customerInfo option"
  "notes" :: "string option"
  sessionId :: "json option"
  status :: "string option"

record order =
  oid :: objectId
  items :: "item list"
  totalPrice :: "rat option"
  customerInfo :: "customerInfo option"
  status :: string
  orderDate :: int
  "notes" :: "string option"

record cart =
  oid :: objectId
  sessionId :: string
  items :: "item list"
  lastUpdated :: int

section \<open>Client: the cart mutations of App.js\<close>

text \<open>
  \<^verbatim>\<open>addToCart\<close>, \<^verbatim>\<open>updateQuantity\<close> and \<^verbatim>\<open>removeFromCart\<close> each compute
  \<^verbatim>\<open>updatedCart\<close> from the React state \<^verbatim>\<open>cart\<close>, store it with \<^verbatim>\<open>setCart\<close> and push the
  same list to the backend. The functions below return \<^verbatim>\<open>updatedCart\<close>.
\<close>

definition addToCart :: "menuItem \<Rightarrow> item list \<Rightarrow> item list" where
  "addToCart it cart =
     (case find (\<lambda>cartItem. item.name cartItem = menuItem.name it) cart of
        Some existingItem \<Rightarrow>
          map (\<lambda>cartItem.
                 if item.name cartItem = menuItem.name it
                 then cartItem\<lparr>quantity := js_add (quantity cartItem) (Num 1)\<rparr>
                 else cartItem) cart
      | None \<Rightarrow>
          cart @ [\<lparr>item.name = menuItem.name it, price = menuItem.price it,
                   quantity = Num 1\<rparr>])"

definition updateQuantity :: "string \<Rightarrow> number \<Rightarrow> item list \<Rightarrow> item list" where
  "updateQuantity nm change cart =
     filter (\<lambda>i. js_less (Num 0) (quantity i))
       (map (\<lambda>i. if item.name i = nm
                  then i\<lparr>quantity := js_max (Num 0) (js_add (quantity i) change)\<rparr>
                  else i) cart)"

definition removeFromCart :: "string \<Rightarrow> item list \<Rightarrow> item list" where
  "removeFromCart nm cart = filter (\<lambda>i. item.name i \<noteq> nm) cart"

text \<open>
  Two invariants of the local cart state: every entry has quantity at least 1, and every
  entry has quantity greater than 0.
\<close>

definition quantities_ok :: "item list \<Rightarrow> bool" where
  "quantities_ok cart = list_all (\<lambda>i. js_ge (quantity i) (Num 1)) cart"

definition quantities_positive :: "item list \<Rightarrow> bool" where
  "quantities_positive cart = list_all (\<lambda>i. js_less (Num 0) (quantity i)) cart"

text \<open>
  What \<^verbatim>\<open>updateQuantity\<close> is said to do to one entry: an entry of another name stays, an
  entry of the name is stepped, and dropped when the step would leave it at 0 or below.
\<close>

definition step_entry :: "string \<Rightarrow> number \<Rightarrow> item \<Rightarrow> item list" where
  "step_entry nm change i =
     (if item.name i = nm
      then (if js_less (Num 0) (js_add (quantity i) change)
            then [i\<lparr>quantity := js_add (quantity i) change\<rparr>] else [])
      else [i])"

section \<open>The document store and the Mongoose calls the handlers make\<close>

text \<open>
  A collection is the list of its documents in insertion order. The store is the three
  collections.
\<close>

record db =
  menuItems :: "menuItem list"
  orders :: "order list"
  carts :: "cart list"

text \<open>
  Every store call is awaited inside the handler's \<^verbatim>\<open>try\<close> block and may reject (the store
  is unreachable, a time-out). A \<open>fault\<close> says whether one awaited call rejects, and with
  which error message; a call that rejects leaves the collection as it was.
\<close>

type_synonym fault = "string option"

definition await :: "fault \<Rightarrow> string + 'a \<Rightarrow> string + 'a" where
  "await f r = (case f of Some msg \<Rightarrow> Inl msg | None \<Rightarrow> r)"

text \<open>The first document that matches is the one a single-document call acts on.\<close>

fun delete_first :: "('d \<Rightarrow> bool) \<Rightarrow> 'd list \<Rightarrow> 'd list" where
  "delete_first P [] = []"
| "delete_first P (d # ds) = (if P d then ds else d # delete_first P ds)"

fun update_first :: "('d \<Rightarrow> bool) \<Rightarrow> ('d \<Rightarrow> 'd) \<Rightarrow> 'd list \<Rightarrow> 'd list" where
  "update_first P u [] = []"
| "update_first P u (d # ds) = (if P d then u d # ds else d # update_first P u ds)"

definition findOneAndDelete :: "('d \<Rightarrow> bool) \<Rightarrow> 'd list \<Rightarrow> 'd option \<times> 'd list" where
  "findOneAndDelete P ds = (find P ds, delete_first P ds)"

text \<open>
  The by-id calls first cast the route parameter to an ObjectId and throw a CastError
  when the string is not one. The cast belongs to the driver, so the calls take it as the
  parameter \<open>cast\<close>; \<open>oid_of\<close> reads the \<^verbatim>\<open>_id\<close> of a document of the collection.
\<close>

definition castError :: string where
  "castError = ''Cast to ObjectId failed''"

definition findByIdAndDelete ::
  "(string \<Rightarrow> objectId option) \<Rightarrow> ('d \<Rightarrow> objectId) \<Rightarrow> string \<Rightarrow> 'd list
     \<Rightarrow> string + ('d option \<times> 'd list)" where
  "findByIdAndDelete cast oid_of ident ds =
     (case cast ident of
        None \<Rightarrow> Inl castError
      | Some k \<Rightarrow> Inr (findOneAndDelete (\<lambda>d. oid_of d = k) ds))"

text \<open>With \<^verbatim>\<open>{ new: true }\<close> the call returns the document as updated.\<close>

definition findByIdAndUpdate ::
  "(string \<Rightarrow> objectId option) \<Rightarrow> ('d \<Rightarrow> objectId) \<Rightarrow> string \<Rightarrow> ('d \<Rightarrow> 'd) \<Rightarrow> 'd list
     \<Rightarrow> string + ('d option \<times> 'd list)" where
  "findByIdAndUpdate cast oid_of ident u ds =
     (case cast ident of
        None \<Rightarrow> Inl castError
      | Some k \<Rightarrow>
          Inr (map_option u (find (\<lambda>d. oid_of d = k) ds),
               update_first (\<lambda>d. oid_of d = k) u ds))"

text \<open>
  The string form the BSON library accepts for an ObjectId, 24 hexadecimal digits in
  either case, used wherever a concrete cast is needed.
\<close>

definition isHexDigit :: "char \<Rightarrow> bool" where
  "isHexDigit c = (c \<in> set ''0123456789abcdefABCDEF'')"

definition toLowerHex :: "char \<Rightarrow> char" where
  "toLowerHex c =
     (if c = CHR ''A'' then CHR ''a'' else if c = CHR ''B'' then CHR ''b''
      else if c = CHR ''C'' then CHR ''c'' else if c = CHR ''D'' then CHR ''d''
      else if c = CHR ''E'' then CHR ''e'' else if c = CHR ''F'' then CHR ''f'' else c)"

definition castObjectId :: "string \<Rightarrow> objectId option" where
  "castObjectId s =
     (if length s = 24 \<and> list_all isHexDigit s then Some (map toLowerHex s) else None)"

text \<open>\<^verbatim>\<open>find().sort({ orderDate: -1 })\<close>: descending by the key.\<close>

definition sort_desc :: "('d \<Rightarrow> int) \<Rightarrow> 'd list \<Rightarrow> 'd list" where
  "sort_desc k ds = sort_key (\<lambda>d. - k d) ds"

text \<open>
  \<^verbatim>\<open>save()\<close> validates the document against its schema and then writes it. The Order
  schema requires \<^verbatim>\<open>totalPrice\<close> and restricts \<^verbatim>\<open>status\<close> to its enum; the Cart schema
  requires \<^verbatim>\<open>sessionId\<close> (for a string: present and not empty) and declares it unique. The
  store keeps \<^verbatim>\<open>_id\<close> unique in every collection. The error texts are shortened.
\<close>

definition validStatuses :: "string list" where
  "validStatuses = [''pending'', ''confirmed'', ''preparing'', ''ready'', ''delivered'', ''cancelled'']"

definition duplicateKey :: string where
  "duplicateKey = ''E11000 duplicate key error''"

definition validate_order :: "order \<Rightarrow> string + order" where
  "validate_order ord =
     (if order.totalPrice ord = None then Inl ''Order validation failed: totalPrice is required''
      else if order.status ord \<notin> set validStatuses
      then Inl ''Order validation failed: status is not a valid enum value''
      else Inr ord)"

text \<open>The handlers only ever save an Order they have just constructed: an insert.\<close>

definition save_order :: "order \<Rightarrow> order list \<Rightarrow> string + order list" where
  "save_order ord os =
     (case validate_order ord of
        Inl msg \<Rightarrow> Inl msg
      | Inr _ \<Rightarrow>
          if order.oid ord \<in> set (map order.oid os) then Inl duplicateKey
          else Inr (os @ [ord]))"

definition validate_cart :: "cart \<Rightarrow> string + cart" where
  "validate_cart c =
     (if cart.sessionId c = [] then Inl ''Cart validation failed: sessionId is required''
      else Inr c)"

text \<open>
  A Cart is saved either new (\<open>isNew\<close>: an insert, which the unique indexes can refuse) or
  after it was loaded and changed (an update of the document with its \<^verbatim>\<open>_id\<close>, which
  fails when the collection has no such document).
\<close>

definition documentNotFound :: string where
  "documentNotFound = ''No document found for query''"

definition save_cart :: "bool \<Rightarrow> cart \<Rightarrow> cart list \<Rightarrow> string + cart list" where
  "save_cart isNew c cs =
     (case validate_cart c of
        Inl msg \<Rightarrow> Inl msg
      | Inr _ \<Rightarrow>
          if isNew
          then (if cart.oid c \<in> set (map cart.oid cs)
                     \<or> cart.sessionId c \<in> set (map cart.sessionId cs)
                then Inl duplicateKey
                else Inr (cs @ [c]))
          else (case find (\<lambda>d. cart.oid d = cart.oid c) cs of
                  None \<Rightarrow> Inl documentNotFound
                | Some _ \<Rightarrow> Inr (update_first (\<lambda>d. cart.oid d = cart.oid c) (\<lambda>_. c) cs)))"

text \<open>
  What the store guarantees of the Carts collection: \<^verbatim>\<open>_id\<close> and \<^verbatim>\<open>sessionId\<close> are unique,
  and no \<^verbatim>\<open>sessionId\<close> is empty.
\<close>

definition carts_ok :: "cart list \<Rightarrow> bool" where
  "carts_ok cs =
     (distinct (map cart.oid cs) \<and> distinct (map cart.sessionId cs)
      \<and> [] \<notin> set (map cart.sessionId cs))"

section \<open>The request handlers\<close>

text \<open>
  A handler takes what belongs to the library (\<open>cast\<close>, \<open>castq\<close>), the faults of its
  awaited store calls in order, what the environment
  supplies (\<open>now\<close> for \<^verbatim>\<open>Date.now()\<close>, \<open>newId\<close> for the \<^verbatim>\<open>_id\<close> of a document it
  constructs), the request and the store; it returns the response and the store
  afterwards. A response is a status code (200 where the handler sets none) and a JSON
  body: a document or list of documents, a \<^verbatim>\<open>message\<close>, or an \<^verbatim>\<open>error\<close> with optional
  \<^verbatim>\<open>details\<close>.
\<close>

datatype 'a content = Payload 'a | Message string | Failure string "string option"

datatype 'a reply = Reply (code: nat) (content: "'a content")

definition get_api_menu :: "fault \<Rightarrow> db \<Rightarrow> menuItem list reply \<times> db" where
  "get_api_menu f db =
     (case await f (Inr (filter (\<lambda>m. available m = True) (menuItems db))) of
        Inr found \<Rightarrow> (Reply 200 (Payload found), db)
      | Inl msg \<Rightarrow> (Reply 500 (Failure ''Failed to fetch menu items'' (Some msg)), db))"

definition delete_api_menu ::
  "(string \<Rightarrow> objectId option) \<Rightarrow> fault \<Rightarrow> string \<Rightarrow> db \<Rightarrow> unit reply \<times> db" where
  "delete_api_menu cast f ident db =
     (case await f (findByIdAndDelete cast menuItem.oid ident (menuItems db)) of
        Inr (None, _) \<Rightarrow> (Reply 404 (Failure ''Menu item not found'' None), db)
      | Inr (Some deletedItem, ms) \<Rightarrow>
          (Reply 200 (Message ''Menu item deleted successfully''), db\<lparr>menuItems := ms\<rparr>)
      | Inl msg \<Rightarrow> (Reply 500 (Failure ''Failed to delete menu item'' (Some msg)), db))"

text \<open>
  \<^verbatim>\<open>new Cart({ sessionId, items })\<close>: the document gets its \<^verbatim>\<open>_id\<close> and the schema default
  \<^verbatim>\<open>Date.now\<close> for \<^verbatim>\<open>lastUpdated\<close>.
\<close>

definition new_Cart :: "objectId \<Rightarrow> int \<Rightarrow> string \<Rightarrow> item list \<Rightarrow> cart" where
  "new_Cart newId now sid its =
     \<lparr>cart.oid = newId, sessionId = sid, items = its, lastUpdated = now\<rparr>"

definition get_api_cart ::
  "fault \<Rightarrow> fault \<Rightarrow> int \<Rightarrow> objectId \<Rightarrow> string \<Rightarrow> db \<Rightarrow> cart reply \<times> db" where
  "get_api_cart f_find f_save now newId sid db =
     (case await f_find (Inr (find (\<lambda>c. cart.sessionId c = sid) (carts db))) of
        Inl msg \<Rightarrow> (Reply 500 (Failure ''Failed to fetch cart'' (Some msg)), db)
      | Inr (Some c) \<Rightarrow> (Reply 200 (Payload c), db)
      | Inr None \<Rightarrow>
          (let c = new_Cart newId now sid [] in
           case await f_save (save_cart True c (carts db)) of
             Inl msg \<Rightarrow> (Reply 500 (Failure ''Failed to fetch cart'' (Some msg)), db)
           | Inr cs \<Rightarrow> (Reply 200 (Payload c), db\<lparr>carts := cs\<rparr>)))"

text \<open>
  The body of a cart-upsert request is read at \<^verbatim>\<open>req.body.items\<close> only, here an array of
  items.
\<close>

definition post_api_cart ::
  "fault \<Rightarrow> fault \<Rightarrow> int \<Rightarrow> objectId \<Rightarrow> string \<Rightarrow> item list \<Rightarrow> db \<Rightarrow> cart reply \<times> db" where
  "post_api_cart f_find f_save now newId sid body_items db =
     (case await f_find (Inr (find (\<lambda>c. cart.sessionId c = sid) (carts db))) of
        Inl msg \<Rightarrow> (Reply 400 (Failure ''Failed to update cart'' (Some msg)), db)
      | Inr found \<Rightarrow>
          (let (isNew, c) =
                 (case found of
                    None \<Rightarrow>
                      (True, new_Cart newId now sid body_items)
                  | Some c0 \<Rightarrow> (False, c0\<lparr>cart.items := body_items, lastUpdated := now\<rparr>))
           in case await f_save (save_cart isNew c (carts db)) of
                Inl msg \<Rightarrow> (Reply 400 (Failure ''Failed to update cart'' (Some msg)), db)
              | Inr cs \<Rightarrow> (Reply 200 (Payload c), db\<lparr>carts := cs\<rparr>)))"

definition delete_api_cart :: "fault \<Rightarrow> string \<Rightarrow> db \<Rightarrow> unit reply \<times> db" where
  "delete_api_cart f sid db =
     (case await f (Inr (findOneAndDelete (\<lambda>c. cart.sessionId c = sid) (carts db))) of
        Inl msg \<Rightarrow> (Reply 500 (Failure ''Failed to clear cart'' (Some msg)), db)
      | Inr (_, cs) \<Rightarrow> (Reply 200 (Message ''Cart cleared successfully''), db\<lparr>carts := cs\<rparr>))"

definition get_api_orders :: "fault \<Rightarrow> db \<Rightarrow> order list reply \<times> db" where
  "get_api_orders f db =
     (case await f (Inr (sort_desc orderDate (orders db))) of
        Inr found \<Rightarrow> (Reply 200 (Payload found), db)
      | Inl msg \<Rightarrow> (Reply 500 (Failure ''Failed to fetch orders'' (Some msg)), db))"

text \<open>
  \<^verbatim>\<open>if (sessionId)\<close>: the truthiness of a JSON value.
\<close>

fun truthy :: "json \<Rightarrow> bool" where
  "truthy JNull = False"
| "truthy (JBool b) = b"
| "truthy (JNum n) = (n \<noteq> Num 0 \<and> n \<noteq> NaN)"
| "truthy (JStr s) = (s \<noteq> [])"
| "truthy (JArr _) = True"
| "truthy (JObj _) = True"

text \<open>
  \<^verbatim>\<open>Cart.findOneAndDelete({ sessionId })\<close> with the value of the body as it came. For a
  string the filter is equality with the stored \<^verbatim>\<open>sessionId\<close>. What Mongoose makes of any
  other value (a cast to a string, a query operator object, a CastError) belongs to the
  library, so the call takes it as the parameter \<open>castq\<close>: an error message, or the
  condition on the stored \<^verbatim>\<open>sessionId\<close>.
\<close>

definition sessionId_filter ::
  "(json \<Rightarrow> string + (string \<Rightarrow> bool)) \<Rightarrow> json \<Rightarrow> string + (cart \<Rightarrow> bool)" where
  "sessionId_filter castq v =
     (case v of
        JStr s \<Rightarrow> Inr (\<lambda>c. cart.sessionId c = s)
      | _ \<Rightarrow> (case castq v of
                Inl msg \<Rightarrow> Inl msg
              | Inr P \<Rightarrow> Inr (\<lambda>c. P (cart.sessionId c))))"

text \<open>
  \<^verbatim>\<open>if (sessionId) { await Cart.findOneAndDelete({ sessionId }); }\<close>: an absent or falsy
  \<^verbatim>\<open>sessionId\<close> skips the call.
\<close>

fun delete_session_cart ::
  "(json \<Rightarrow> string + (string \<Rightarrow> bool)) \<Rightarrow> fault \<Rightarrow> json option \<Rightarrow> cart list
     \<Rightarrow> string + cart list" where
  "delete_session_cart castq f None cs = Inr cs"
| "delete_session_cart castq f (Some v) cs =
     (if \<not> truthy v then Inr cs
      else (case await f (case sessionId_filter castq v of
                            Inl msg \<Rightarrow> Inl msg
                          | Inr P \<Rightarrow> Inr (findOneAndDelete P cs)) of
              Inl msg \<Rightarrow> Inl msg
            | Inr (_, cs') \<Rightarrow> Inr cs'))"

text \<open>
  A cast for the examples: it knows the one operator object they use, \<^verbatim>\<open>{ $ne: s }\<close> with a
  string \<^verbatim>\<open>s\<close>, which matches the documents whose \<^verbatim>\<open>sessionId\<close> is not \<^verbatim>\<open>s\<close>. It stands for the
  library's cast at that value only; it refuses every other value, and nothing that is
  proved for all casts depends on it.
\<close>

fun cast_ne :: "json \<Rightarrow> string + (string \<Rightarrow> bool)" where
  "cast_ne (JObj [(k, JStr s)]) =
     (if k = ''$ne'' then Inr (\<lambda>x. x \<noteq> s) else Inl ''Cast to string failed'')"
| "cast_ne _ = Inl ''Cast to string failed''"

definition post_api_orders ::
  "(json \<Rightarrow> string + (string \<Rightarrow> bool)) \<Rightarrow> fault \<Rightarrow> fault \<Rightarrow> int \<Rightarrow> objectId \<Rightarrow> orderBody
     \<Rightarrow> db \<Rightarrow> order reply \<times> db" where
  "post_api_orders castq f_save f_delete now newId body db =
     (case orderBody.items body of
        None \<Rightarrow> (Reply 400 (Failure ''Order must contain at least one item'' None), db)
      | Some its \<Rightarrow>
          if length its = 0
          then (Reply 400 (Failure ''Order must contain at least one item'' None), db)
          else
            (let newOrder =
                   \<lparr>order.oid = newId, items = its, totalPrice = orderBody.totalPrice body,
                    customerInfo = orderBody.customerInfo body, status = ''pending'',
                    orderDate = now, notes = orderBody.notes body\<rparr>
             in case await f_save (save_order newOrder (orders db)) of
                  Inl msg \<Rightarrow> (Reply 400 (Failure ''Failed to create order'' (Some msg)), db)
                | Inr os \<Rightarrow>
                    (case delete_session_cart castq f_delete (orderBody.sessionId body)
                            (carts db) of
                       Inl msg \<Rightarrow>
                         (Reply 400 (Failure ''Failed to create order'' (Some msg)),
                          db\<lparr>orders := os\<rparr>)
                     | Inr cs \<Rightarrow>
                         (Reply 201 (Payload newOrder), db\<lparr>orders := os, carts := cs\<rparr>))))"

definition patch_api_orders_status ::
  "(string \<Rightarrow> objectId option) \<Rightarrow> fault \<Rightarrow> string \<Rightarrow> string option \<Rightarrow> db
     \<Rightarrow> order reply \<times> db" where
  "patch_api_orders_status cast f ident body_status db =
     (case body_status of
        None \<Rightarrow> (Reply 400 (Failure ''Invalid status'' None), db)
      | Some st \<Rightarrow>
          if st \<notin> set validStatuses then (Reply 400 (Failure ''Invalid status'' None), db)
          else
            (case await f (findByIdAndUpdate cast order.oid ident
                             (\<lambda>ord. ord\<lparr>order.status := st\<rparr>) (orders db)) of
               Inl msg \<Rightarrow>
                 (Reply 400 (Failure ''Failed to update order status'' (Some msg)), db)
             | Inr (None, _) \<Rightarrow> (Reply 404 (Failure ''Order not found'' None), db)
             | Inr (Some ord, os) \<Rightarrow> (Reply 200 (Payload ord), db\<lparr>orders := os\<rparr>)))"

definition delete_api_orders ::
  "(string \<Rightarrow> objectId option) \<Rightarrow> fault \<Rightarrow> string \<Rightarrow> db \<Rightarrow> unit reply \<times> db" where
  "delete_api_orders cast f ident db =
     (case await f (findByIdAndDelete cast order.oid ident (orders db)) of
        Inr (None, _) \<Rightarrow> (Reply 404 (Failure ''Order not found'' None), db)
      | Inr (Some deletedOrder, os) \<Rightarrow>
          (Reply 200 (Message ''Order deleted successfully''), db\<lparr>orders := os\<rparr>)
      | Inl msg \<Rightarrow> (Reply 500 (Failure ''Failed to delete order'' (Some msg)), db))"

section \<open>Sample documents, requests and stores\<close>

definition menu_fries :: menuItem where
  "menu_fries =
     \<lparr>menuItem.oid = ''650000000000000000000001'', name = ''French Fries'',
      description = ''Golden, crispy fries made fresh'', price = 249 / 100,
      category = ''sides'', available = True, imageUrl = None, createdAt = 1000\<rparr>"

definition menu_shakes :: menuItem where
  "menu_shakes =
     \<lparr>menuItem.oid = ''650000000000000000000002'', name = ''Shakes'',
      description = ''Made with real ice cream'', price = 299 / 100,
      category = ''drinks'', available = False, imageUrl = None, createdAt = 1001\<rparr>"

definition two_fries :: item where
  "two_fries = \<lparr>item.name = ''French Fries'', price = 249 / 100, quantity = Num 2\<rparr>"

definition one_shake :: item where
  "one_shake = \<lparr>item.name = ''Shakes'', price = 299 / 100, quantity = Num 1\<rparr>"

definition cart_s1 :: cart where
  "cart_s1 =
     \<lparr>cart.oid = ''6500000000000000000000a1'', sessionId = ''s1'', items = [two_fries],
      lastUpdated = 2000\<rparr>"

definition cart_s2 :: cart where
  "cart_s2 =
     \<lparr>cart.oid = ''6500000000000000000000a2'', sessionId = ''s2'', items = [one_shake],
      lastUpdated = 2500\<rparr>"

definition guest :: customerInfo where
  "guest =
     \<lparr>customerInfo.name = Some ''Guest Customer'', email = Some ''guest@example.com'',
      phone = Some ''555-0000''\<rparr>"

definition order_a :: order where
  "order_a =
     \<lparr>order.oid = ''6500000000000000000000b1'', items = [one_shake],
      totalPrice = Some (299 / 100), customerInfo = Some guest, status = ''delivered'',
      orderDate = 3000, notes = None\<rparr>"

definition order_b :: order where
  "order_b =
     \<lparr>order.oid = ''6500000000000000000000b2'', items = [two_fries],
      totalPrice = Some (498 / 100), customerInfo = None, status = ''pending'',
      orderDate = 5000, notes = Some ''no salt''\<rparr>"

definition db0 :: db where
  "db0 = \<lparr>menuItems = [menu_fries, menu_shakes], orders = [order_a, order_b],
          carts = [cart_s1, cart_s2]\<rparr>"

definition body_s1 :: orderBody where
  "body_s1 =
     \<lparr>orderBody.items = Some [two_fries], totalPrice = Some (498 / 100),
      customerInfo = Some guest, notes = None, sessionId = Some (JStr ''s1''),
      status = Some ''delivered''\<rparr>"

definition fries :: "number \<Rightarrow> item" where
  "fries q = \<lparr>item.name = ''French Fries'', price = 249 / 100, quantity = q\<rparr>"

definition order_c :: order where
  "order_c =
     \<lparr>order.oid = ''6500000000000000000000b3'', items = [two_fries],
      totalPrice = Some (498 / 100), customerInfo = Some guest, status = ''pending'',
      orderDate = 6000, notes = None\<rparr>"

section \<open>Facts about JavaScript numbers\<close>

lemma floor_rat_numeral_div:
  "\<lfloor>(numeral a :: rat) / numeral b\<rfloor> = numeral a div numeral b"
  using floor_divide_of_int_eq [of "numeral a" "numeral b", where ?'a = rat] by simp

lemma floor_rat_neg_numeral_div:
  "\<lfloor>- ((numeral a :: rat) / numeral b)\<rfloor> = - numeral a div numeral b"
  using floor_divide_of_int_eq [of "- numeral a" "numeral b", where ?'a = rat] by simp

lemma ceiling_rat_numeral_div:
  "\<lceil>(numeral a :: rat) / numeral b\<rceil> = - (- numeral a div numeral b)"
  by (simp add: ceiling_def floor_rat_neg_numeral_div)

lemma floor_rat_one_div:
  "\<lfloor>(1 :: rat) / numeral b\<rfloor> = 1 div numeral b"
  using floor_divide_of_int_eq [of 1 "numeral b", where ?'a = rat] by simp

lemmas eval64 = round64_def ilog2_def round_half_even_def pow2_def Let_def compute_bitlen
  floor_rat_numeral_div floor_rat_neg_numeral_div ceiling_rat_numeral_div floor_rat_one_div

lemma pow2_powi: "pow2 k = 2 powi k"
  by (simp add: pow2_def power_int_def inverse_eq_divide power_divide)

lemma pow2_pos: "0 < pow2 k"
  by (simp add: pow2_powi)

lemma pow2_mono: "a \<le> b \<Longrightarrow> pow2 a \<le> pow2 b"
  by (simp add: pow2_powi power_int_increasing)

lemma pow2_le_one: "k \<le> 0 \<Longrightarrow> pow2 k \<le> 1"
  using pow2_mono [of k 0] by (simp add: pow2_def)

lemma pow2_ilog2_le:
  assumes "0 < x"
  shows "pow2 (ilog2 x) \<le> x"
proof (cases "1 \<le> x")
  case True
  then have p: "0 < \<lfloor>x\<rfloor>" by linarith
  from bitlen_bounds [OF p] have "2 ^ nat (bitlen \<lfloor>x\<rfloor> - 1) \<le> \<lfloor>x\<rfloor>" ..
  then have "(of_int (2 ^ nat (bitlen \<lfloor>x\<rfloor> - 1)) :: rat) \<le> of_int \<lfloor>x\<rfloor>"
    by (simp only: of_int_le_iff)
  also have "\<dots> \<le> x" by simp
  finally have "2 ^ nat (bitlen \<lfloor>x\<rfloor> - 1) \<le> x" by simp
  moreover from p have "1 \<le> bitlen \<lfloor>x\<rfloor>"
    using bitlen_eq_zero_iff [of "\<lfloor>x\<rfloor>"] bitlen_nonneg [of "\<lfloor>x\<rfloor>"] by linarith
  ultimately show ?thesis using True by (simp add: ilog2_def pow2_def)
next
  case False
  with assms have inv: "1 < 1 / x" by simp
  let ?m = "\<lceil>1 / x\<rceil>"
  from inv have m: "0 < ?m - 1" by linarith
  from bitlen_bounds [OF m] have "?m - 1 < 2 ^ nat (bitlen (?m - 1))" ..
  then have "?m \<le> 2 ^ nat (bitlen (?m - 1))" by linarith
  then have "(of_int ?m :: rat) \<le> of_int (2 ^ nat (bitlen (?m - 1)))"
    by (simp only: of_int_le_iff)
  moreover have "1 / x \<le> of_int ?m" by (rule le_of_int_ceiling)
  ultimately have "1 / x \<le> of_int (2 ^ nat (bitlen (?m - 1)))" by (rule order_trans [rotated])
  then have "1 / x \<le> 2 ^ nat (bitlen (?m - 1))" by simp
  with assms have "1 / 2 ^ nat (bitlen (?m - 1)) \<le> x"
    by (simp add: field_simps)
  moreover have "0 \<le> bitlen (?m - 1)" by (rule bitlen_nonneg)
  ultimately show ?thesis using False
    by (cases "bitlen (?m - 1) = 0") (simp_all add: ilog2_def pow2_def)
qed

lemma round_half_even_of_int: "round_half_even (of_int j) = j"
  by (simp add: round_half_even_def)

lemma floor_le_round_half_even: "\<lfloor>z\<rfloor> \<le> round_half_even z"
  by (simp add: round_half_even_def Let_def)

lemma round64_ge_one:
  assumes "1 \<le> x"
  shows "js_less (Num 0) (round64 x)"
proof -
  let ?k = "max (ilog2 \<bar>x\<bar>) (- 1022) - 52"
  let ?n = "round_half_even (x / pow2 ?k)"
  from assms have pos: "0 < x" and abs: "\<bar>x\<bar> = x" by simp_all
  have "pow2 ?k \<le> x"
  proof (cases "- 1022 \<le> ilog2 x")
    case True
    then have "pow2 ?k \<le> pow2 (ilog2 x)" using abs by (intro pow2_mono) simp
    also have "\<dots> \<le> x" using pos by (rule pow2_ilog2_le)
    finally show ?thesis .
  next
    case False
    then have "pow2 ?k \<le> 1" using abs by (intro pow2_le_one) simp
    with assms show ?thesis by simp
  qed
  then have "1 \<le> x / pow2 ?k" using pow2_pos [of ?k] by (simp add: field_simps)
  then have "1 \<le> \<lfloor>x / pow2 ?k\<rfloor>" by simp
  with floor_le_round_half_even [of "x / pow2 ?k"] have "1 \<le> ?n" by linarith
  then have "0 < (of_int ?n :: rat) * pow2 ?k" using pow2_pos [of ?k] by simp
  with pos show ?thesis by (simp add: round64_def Let_def)
qed

lemma js_add_one_positive:
  assumes "js_less (Num 0) q"
  shows "js_less (Num 0) (js_add q (Num 1))"
proof (cases q)
  case (Num r)
  with assms have "1 \<le> r + 1" by simp
  from round64_ge_one [OF this] Num show ?thesis by simp
qed (use assms in simp_all)

lemma js_max_zero_positive:
  "js_less (Num 0) (js_max (Num 0) x) = js_less (Num 0) x"
  by (cases x) (simp_all add: js_max_def)

lemma js_max_zero_id: "js_less (Num 0) x \<Longrightarrow> js_max (Num 0) x = x"
  by (cases x) (simp_all add: js_max_def)

lemma round64_exact:
  assumes "x / pow2 (max (ilog2 \<bar>x\<bar>) (- 1022) - 52) = of_int j" and "\<bar>x\<bar> < 2 ^ 1024"
  shows "round64 x = Num x"
proof (cases "x = 0")
  case True
  then show ?thesis by (simp add: round64_def)
next
  case False
  let ?k = "max (ilog2 \<bar>x\<bar>) (- 1022) - 52"
  have "round_half_even (x / pow2 ?k) = j"
    by (simp only: assms(1) round_half_even_of_int)
  moreover have "of_int j * pow2 ?k = x"
    using assms(1) pow2_pos [of ?k] by (simp add: field_simps)
  ultimately have "of_int (round_half_even (x / pow2 ?k)) * pow2 ?k = x" by simp
  with False assms(2) show ?thesis by (simp add: round64_def Let_def)
qed

lemma round64_safe_integer:
  assumes "0 \<le> m" and "m \<le> 2 ^ 53"
  shows "round64 (of_int m) = Num (of_int m)"
proof (cases "m = 0")
  case True
  then show ?thesis by (simp add: round64_def)
next
  case False
  with assms have m: "0 < m" by simp
  let ?x = "of_int m :: rat"
  let ?b = "bitlen m"
  have e: "ilog2 \<bar>?x\<bar> = ?b - 1" using m by (simp add: ilog2_def)
  from bitlen_bounds [OF m] have lo: "2 ^ nat (?b - 1) \<le> m" ..
  from m have b1: "1 \<le> ?b"
    using bitlen_eq_zero_iff [of m] bitlen_nonneg [of m] by linarith
  from lo assms(2) have "(2::int) ^ nat (?b - 1) \<le> 2 ^ 53" by linarith
  then have "nat (?b - 1) \<le> 53" by (rule power_le_imp_le_exp [rotated]) simp
  with b1 have b54: "?b \<le> 54" by linarith
  have k: "max (ilog2 \<bar>?x\<bar>) (- 1022) - 52 = ?b - 53" using e b1 by simp
  have small: "\<bar>?x\<bar> < 2 ^ 1024"
  proof -
    have "?x \<le> of_int (2 ^ 53)" using assms(2) by (simp only: of_int_le_iff)
    also have "\<dots> < 2 ^ 1024" by simp
    finally show ?thesis using m by simp
  qed
  show ?thesis
  proof (cases "?b = 54")
    case True
    with lo assms(2) have "m = 2 ^ 53" by simp
    then have "?x / pow2 (?b - 53) = of_int (2 ^ 52)" using True by (simp add: pow2_def)
    then have q: "?x / pow2 (max (ilog2 \<bar>?x\<bar>) (- 1022) - 52) = of_int (2 ^ 52)"
      by (simp only: k)
    show ?thesis by (rule round64_exact [OF q small])
  next
    case False
    with b54 have le: "?b - 53 \<le> 0" by simp
    have "?x / pow2 (?b - 53) = of_int (m * 2 ^ nat (53 - ?b))"
    proof (cases "?b = 53")
      case True
      then show ?thesis by (simp add: pow2_def)
    next
      case False
      with le have "\<not> 0 \<le> ?b - 53" by simp
      then show ?thesis by (simp add: pow2_def)
    qed
    then have q: "?x / pow2 (max (ilog2 \<bar>?x\<bar>) (- 1022) - 52) =
        of_int (m * 2 ^ nat (53 - ?b))"
      by (simp only: k)
    show ?thesis by (rule round64_exact [OF q small])
  qed
qed

section \<open>Facts about the store calls\<close>

lemma find_Some_props: "find P ds = Some d \<Longrightarrow> P d \<and> d \<in> set ds"
  by (induction ds) (auto split: if_splits)

lemma delete_first_no_match: "find P ds = None \<Longrightarrow> delete_first P ds = ds"
  by (induction ds) (auto split: if_splits)

lemma delete_first_keeps_others:
  "filter (\<lambda>d. \<not> P d) (delete_first P ds) = filter (\<lambda>d. \<not> P d) ds"
  by (induction ds) auto

lemma delete_first_distinct_key:
  "distinct (map k ds) \<Longrightarrow> delete_first (\<lambda>d. k d = v) ds = filter (\<lambda>d. k d \<noteq> v) ds"
proof (induction ds)
  case Nil
  then show ?case by simp
next
  case (Cons d ds)
  show ?case
  proof (cases "k d = v")
    case True
    with Cons.prems have "v \<notin> k ` set ds" by simp
    then have "\<forall>e \<in> set ds. k e \<noteq> v" by blast
    then have "filter (\<lambda>d. k d \<noteq> v) ds = ds" by (simp add: filter_id_conv)
    with True show ?thesis by simp
  next
    case False
    with Cons show ?thesis by simp
  qed
qed

lemma find_update_first:
  "find P ds = Some d \<Longrightarrow> P (u d) \<Longrightarrow> find P (update_first P u ds) = Some (u d)"
  by (induction ds) (auto split: if_splits)


lemma update_first_keeps_others:
  "(\<And>d. P d \<Longrightarrow> P (u d)) \<Longrightarrow>
     filter (\<lambda>d. \<not> P d) (update_first P u ds) = filter (\<lambda>d. \<not> P d) ds"
  by (induction ds) auto

lemma length_update_first: "length (update_first P u ds) = length ds"
  by (induction ds) auto

lemma find_None_key: "find (\<lambda>d. k d = v) ds = None \<longleftrightarrow> v \<notin> set (map k ds)"
  by (induction ds) auto

lemma find_append_miss: "find P ds = None \<Longrightarrow> find P (ds @ es) = find P es"
  by (induction ds) (auto split: if_splits)

lemma sort_desc_perm: "mset (sort_desc k ds) = mset ds"
  by (simp add: sort_desc_def)

lemma sort_desc_sorted: "sorted_wrt (\<lambda>a b. k b \<le> k a) (sort_desc k ds)"
proof -
  have "sorted (map (\<lambda>d. - k d) (sort_desc k ds))"
    by (simp add: sort_desc_def)
  then show ?thesis
    by (simp add: sorted_wrt_map sorted_wrt_iff_nth_less)
qed

lemma delete_session_cart_result:
  "delete_session_cart castq f s cs = Inr cs' \<Longrightarrow> cs' = cs \<or> (\<exists>P. cs' = delete_first P cs)"
  by (cases s)
    (auto simp: await_def findOneAndDelete_def split: if_splits option.splits sum.splits)

lemma delete_session_cart_string:
  "delete_session_cart castq f (Some (JStr sid)) cs = Inr cs' \<Longrightarrow>
     cs' = (if sid = [] then cs else delete_first (\<lambda>c. cart.sessionId c = sid) cs)"
  by (auto simp: await_def findOneAndDelete_def sessionId_filter_def
      split: if_splits option.splits sum.splits)

section \<open>The handlers keep the keys of the Carts collection\<close>

lemma map_update_first_key:
  "(\<And>d. d \<in> set ds \<Longrightarrow> P d \<Longrightarrow> k (u d) = k d) \<Longrightarrow>
     map k (update_first P u ds) = map k ds"
  by (induction ds) simp_all

lemma set_delete_first: "set (delete_first P ds) \<subseteq> set ds"
  by (induction ds) auto

lemma distinct_map_delete_first:
  "distinct (map k ds) \<Longrightarrow> distinct (map k (delete_first P ds))"
proof (induction ds)
  case Nil
  then show ?case by simp
next
  case (Cons d ds)
  have "k ` set (delete_first P ds) \<subseteq> k ` set ds"
    using set_delete_first [of P ds] by blast
  with Cons show ?case by auto
qed

lemma carts_ok_delete_first: "carts_ok cs \<Longrightarrow> carts_ok (delete_first P cs)"
  using set_delete_first [of P cs]
  by (auto simp: carts_ok_def distinct_map_delete_first)

lemma carts_ok_save_cart:
  assumes "carts_ok cs" and "save_cart isNew c cs = Inr cs'"
    and "\<not> isNew \<Longrightarrow>
           \<exists>c0 \<in> set cs. cart.oid c = cart.oid c0 \<and> cart.sessionId c = cart.sessionId c0"
  shows "carts_ok cs'"
proof (cases isNew)
  case True
  with assms(2) have "cs' = cs @ [c]" "cart.oid c \<notin> set (map cart.oid cs)"
    "cart.sessionId c \<notin> set (map cart.sessionId cs)" "cart.sessionId c \<noteq> []"
    by (simp_all add: save_cart_def validate_cart_def split: if_splits)
  with assms(1) show ?thesis
    by (simp add: carts_ok_def)
next
  case False
  with assms(3) obtain c0 where c0: "c0 \<in> set cs" "cart.oid c = cart.oid c0"
    "cart.sessionId c = cart.sessionId c0" by blast
  from False assms(2) have cs': "cs' = update_first (\<lambda>d. cart.oid d = cart.oid c) (\<lambda>_. c) cs"
    by (simp add: save_cart_def validate_cart_def split: if_splits option.splits)
  from assms(1) have inj: "inj_on cart.oid (set cs)"
    by (simp add: carts_ok_def distinct_map)
  have same: "cart.sessionId c = cart.sessionId d"
    if "d \<in> set cs" "cart.oid d = cart.oid c" for d
  proof -
    from inj that c0(1,2) have "d = c0" by (simp add: inj_on_def)
    with c0(3) show ?thesis by simp
  qed
  have ids: "map cart.oid cs' = map cart.oid cs"
    unfolding cs' by (rule map_update_first_key) simp
  have sids: "map cart.sessionId cs' = map cart.sessionId cs"
    unfolding cs' by (rule map_update_first_key) (rule same)
  from assms(1) ids sids show ?thesis by (simp add: carts_ok_def)
qed

lemma carts_ok_insert:
  "carts_ok cs \<Longrightarrow> save_cart True c cs = Inr cs' \<Longrightarrow> carts_ok cs'"
  by (rule carts_ok_save_cart [of cs True c cs']) simp_all

lemma get_api_cart_carts:
  "get_api_cart f_find f_save now newId sid db = (r, db') \<Longrightarrow>
     carts db' = carts db
     \<or> save_cart True (new_Cart newId now sid []) (carts db) = Inr (carts db')"
  by (auto simp: get_api_cart_def await_def Let_def split: option.splits sum.splits)

lemma carts_ok_get_api_cart:
  assumes "carts_ok (carts db)" and "get_api_cart f_find f_save now newId sid db = (r, db')"
  shows "carts_ok (carts db')"
  using get_api_cart_carts [OF assms(2)] assms(1) carts_ok_insert by metis

lemma post_api_cart_carts:
  "post_api_cart f_find f_save now newId sid body_items db = (r, db') \<Longrightarrow>
     carts db' = carts db
     \<or> save_cart True (new_Cart newId now sid body_items) (carts db) = Inr (carts db')
     \<or> (\<exists>c0. find (\<lambda>c. cart.sessionId c = sid) (carts db) = Some c0
           \<and> save_cart False (c0\<lparr>cart.items := body_items, lastUpdated := now\<rparr>) (carts db)
               = Inr (carts db'))"
  by (auto simp: post_api_cart_def await_def split: option.splits sum.splits)

lemma carts_ok_post_api_cart:
  assumes "carts_ok (carts db)"
    and "post_api_cart f_find f_save now newId sid body_items db = (r, db')"
  shows "carts_ok (carts db')"
proof -
  consider "carts db' = carts db"
    | "save_cart True (new_Cart newId now sid body_items) (carts db) = Inr (carts db')"
    | c0 where "find (\<lambda>c. cart.sessionId c = sid) (carts db) = Some c0"
        "save_cart False (c0\<lparr>cart.items := body_items, lastUpdated := now\<rparr>) (carts db)
           = Inr (carts db')"
    using post_api_cart_carts [OF assms(2)] by blast
  then show ?thesis
  proof cases
    case 1
    with assms(1) show ?thesis by simp
  next
    case 2
    with assms(1) show ?thesis by (rule carts_ok_insert)
  next
    case 3
    from find_Some_props [OF 3(1)] have "c0 \<in> set (carts db)" by simp
    then have "\<exists>d \<in> set (carts db).
        cart.oid (c0\<lparr>cart.items := body_items, lastUpdated := now\<rparr>) = cart.oid d
        \<and> cart.sessionId (c0\<lparr>cart.items := body_items, lastUpdated := now\<rparr>) = cart.sessionId d"
      by (intro bexI [of _ c0]) simp_all
    with assms(1) 3(2) show ?thesis by (rule carts_ok_save_cart)
  qed
qed

lemma carts_ok_delete_api_cart:
  assumes "carts_ok (carts db)" and "delete_api_cart f sid db = (r, db')"
  shows "carts_ok (carts db')"
proof -
  from assms(2) have "carts db' = carts db
      \<or> carts db' = delete_first (\<lambda>c. cart.sessionId c = sid) (carts db)"
    by (auto simp: delete_api_cart_def await_def findOneAndDelete_def split: option.splits)
  with assms(1) show ?thesis by (auto simp: carts_ok_delete_first)
qed

lemma carts_ok_post_api_orders:
  assumes "carts_ok (carts db)"
    and "post_api_orders castq f_save f_delete now newId body db = (r, db')"
  shows "carts_ok (carts db')"
proof -
  from assms(2) have "carts db' = carts db
      \<or> delete_session_cart castq f_delete (orderBody.sessionId body) (carts db)
           = Inr (carts db')"
    by (auto simp: post_api_orders_def Let_def split: option.splits if_splits sum.splits)
  then show ?thesis
  proof
    assume "carts db' = carts db"
    with assms(1) show ?thesis by simp
  next
    assume "delete_session_cart castq f_delete (orderBody.sessionId body) (carts db)
              = Inr (carts db')"
    from delete_session_cart_result [OF this] assms(1) show ?thesis
      by (auto simp: carts_ok_delete_first)
  qed
qed

section \<open>Claims about the client\<close>

text \<open>
  Claim C10, as stated: every cart mutation keeps every quantity at least 1, and
  \<^verbatim>\<open>addToCart\<close> of a name in the cart increments its quantity by 1. Quantities are
  JavaScript numbers, and the cart is loaded from the backend, whose schema takes any
  number. A cart with 1.5 French Fries has every quantity at least 1; \<^verbatim>\<open>updateQuantity\<close>
  with the step -1 leaves 0.5, which passes the filter \<^verbatim>\<open>> 0\<close> and is below 1. At
  9007199254740992, which is \<open>2 ^ 53\<close>, the sum with 1 rounds back to the same number, and
  \<^verbatim>\<open>addToCart\<close> leaves the quantity as it was.
\<close>

theorem cart_quantity_at_least_one_counterexample:
  "quantities_ok [fries (Num (3 / 2))]
   \<and> updateQuantity ''French Fries'' (Num (- 1)) [fries (Num (3 / 2))] = [fries (Num (1 / 2))]
   \<and> \<not> quantities_ok [fries (Num (1 / 2))]
   \<and> addToCart menu_fries [fries (Num 9007199254740992)] = [fries (Num 9007199254740992)]"
  by (simp add: quantities_ok_def js_ge_def updateQuantity_def addToCart_def js_max_def
      fries_def menu_fries_def eval64)

text \<open>
  Claim C10, amended. Every cart mutation of the client keeps the invariant that each
  entry of the local cart has quantity greater than 0. \<^verbatim>\<open>updateQuantity\<close> steps the entries
  of the given name and drops those whose quantity would become 0 or less (or NaN);
  \<^verbatim>\<open>addToCart\<close> of a name that is in the cart replaces the quantity of the entries of that
  name by its sum with 1 as a double and appends nothing, and of a name that is not in the
  cart appends one entry of quantity 1. The sum is the quantity plus 1 exactly for every
  whole quantity from 0 to \<open>2 ^ 53 - 1\<close>.
\<close>

theorem cart_mutations_keep_quantities:
  assumes "quantities_positive cart"
  shows "quantities_positive (addToCart it cart)
       \<and> quantities_positive (updateQuantity nm change cart)
       \<and> quantities_positive (removeFromCart nm cart)
       \<and> updateQuantity nm change cart = concat (map (step_entry nm change) cart)
       \<and> addToCart it cart =
           (if menuItem.name it \<in> item.name ` set cart
            then map (\<lambda>c. if item.name c = menuItem.name it
                           then c\<lparr>quantity := js_add (quantity c) (Num 1)\<rparr> else c) cart
            else cart @ [\<lparr>item.name = menuItem.name it, price = menuItem.price it,
                           quantity = Num 1\<rparr>])
       \<and> (0 \<le> m \<and> m < 2 ^ 53 \<longrightarrow>
            js_add (Num (of_int m)) (Num 1) = Num (of_int (m + 1)))"
proof -
  have add: "quantities_positive (addToCart it cart)"
    using assms
    by (auto simp: quantities_positive_def addToCart_def list_all_iff js_add_one_positive
        split: option.splits)
  have upd: "quantities_positive (updateQuantity nm change cart)"
    by (auto simp: quantities_positive_def updateQuantity_def list_all_iff)
  have rem: "quantities_positive (removeFromCart nm cart)"
    using assms by (auto simp: quantities_positive_def removeFromCart_def list_all_iff)
  have steps: "updateQuantity nm change cart = concat (map (step_entry nm change) cart)"
    using assms
    by (induction cart)
      (auto simp: quantities_positive_def updateQuantity_def step_entry_def
        js_max_zero_positive js_max_zero_id)
  have shape: "addToCart it cart =
           (if menuItem.name it \<in> item.name ` set cart
            then map (\<lambda>c. if item.name c = menuItem.name it
                           then c\<lparr>quantity := js_add (quantity c) (Num 1)\<rparr> else c) cart
            else cart @ [\<lparr>item.name = menuItem.name it, price = menuItem.price it,
                           quantity = Num 1\<rparr>])"
  proof (cases "find (\<lambda>c. item.name c = menuItem.name it) cart")
    case None
    then have "menuItem.name it \<notin> item.name ` set cart"
      by (force simp: find_None_iff)
    with None show ?thesis by (simp add: addToCart_def)
  next
    case (Some e)
    then have "menuItem.name it \<in> item.name ` set cart"
      using find_Some_props [OF Some] by force
    with Some show ?thesis by (simp add: addToCart_def)
  qed
  have exact: "js_add (Num (of_int m)) (Num 1) = Num (of_int (m + 1))"
    if "0 \<le> m" "m < 2 ^ 53"
  proof -
    from that have "0 \<le> m + 1" "m + 1 \<le> 2 ^ 53" by simp_all
    from round64_safe_integer [OF this] show ?thesis by simp
  qed
  from add upd rem steps shape exact show ?thesis by blast
qed

theorem cart_mutations_keep_quantities_witness:
  "quantities_positive [two_fries, one_shake]
   \<and> quantities_positive (addToCart menu_fries [two_fries, one_shake])
   \<and> addToCart menu_fries [two_fries, one_shake] = [fries (Num 3), one_shake]
   \<and> addToCart menu_shakes [two_fries] = [two_fries, one_shake]
   \<and> updateQuantity ''Shakes'' (Num (- 1)) [two_fries, one_shake] = [two_fries]
   \<and> updateQuantity ''French Fries'' (Num (- 1)) [two_fries, one_shake] = [fries (Num 1), one_shake]
   \<and> quantities_positive (updateQuantity ''Shakes'' (Num (- 1)) [two_fries, one_shake])
   \<and> removeFromCart ''Shakes'' [two_fries, one_shake] = [two_fries]
   \<and> js_add (Num 2) (Num 1) = Num 3"
proof -
  have ok: "quantities_positive [two_fries, one_shake]"
    by (simp add: quantities_positive_def two_fries_def one_shake_def)
  have ok1: "quantities_positive [two_fries]"
    by (simp add: quantities_positive_def two_fries_def)
  note a = cart_mutations_keep_quantities [OF ok, of menu_fries "''Shakes''" "Num (- 1)" 2]
  note b = cart_mutations_keep_quantities [OF ok, of menu_fries "''French Fries''" "Num (- 1)" 2]
  note c = cart_mutations_keep_quantities [OF ok1, of menu_shakes "''Shakes''" "Num (- 1)" 2]
  have three: "js_add (Num 2) (Num 1) = Num 3"
    using a by simp
  have m1: "js_add (Num 2) (Num (- 1)) = Num 1" "js_add (Num 1) (Num (- 1)) = Num 0"
    by (simp_all add: eval64)
  have add1: "addToCart menu_fries [two_fries, one_shake] = [fries (Num 3), one_shake]"
    using a three by (simp add: two_fries_def one_shake_def menu_fries_def fries_def)
  have add2: "addToCart menu_shakes [two_fries] = [two_fries, one_shake]"
    using c by (simp add: two_fries_def one_shake_def menu_shakes_def)
  have upd1: "updateQuantity ''Shakes'' (Num (- 1)) [two_fries, one_shake] = [two_fries]"
    using a m1 by (simp add: two_fries_def one_shake_def step_entry_def)
  have upd2: "updateQuantity ''French Fries'' (Num (- 1)) [two_fries, one_shake] =
      [fries (Num 1), one_shake]"
    using b m1 by (simp add: two_fries_def one_shake_def step_entry_def fries_def)
  have pos1: "quantities_positive (addToCart menu_fries [two_fries, one_shake])"
    by (rule a [THEN conjunct1])
  have pos2: "quantities_positive (updateQuantity ''Shakes'' (Num (- 1)) [two_fries, one_shake])"
    by (rule a [THEN conjunct2, THEN conjunct1])
  have rem: "removeFromCart ''Shakes'' [two_fries, one_shake] = [two_fries]"
    by (simp add: removeFromCart_def two_fries_def one_shake_def)
  show ?thesis
    by (intro conjI) (rule ok pos1 add1 add2 upd1 upd2 pos2 rem three)+
qed

section \<open>Claims about the request handlers\<close>

text \<open>
  Claim C2. An order-create request whose body has no \<^verbatim>\<open>items\<close> or an empty \<^verbatim>\<open>items\<close> list is
  answered with status 400, whatever the store calls would have done, and the store (so
  the Orders collection) is as before.
\<close>

theorem order_without_items_rejected:
  assumes "orderBody.items body = None \<or> orderBody.items body = Some []"
  shows "post_api_orders castq f_save f_delete now newId body db =
           (Reply 400 (Failure ''Order must contain at least one item'' None), db)"
  using assms by (auto simp: post_api_orders_def)

theorem order_without_items_rejected_witness:
  "orderBody.items (body_s1\<lparr>orderBody.items := Some []\<rparr>) = Some []
   \<and> post_api_orders cast_ne None None 6000 ''6500000000000000000000b3''
        (body_s1\<lparr>orderBody.items := Some []\<rparr>) db0 =
       (Reply 400 (Failure ''Order must contain at least one item'' None), db0)
   \<and> orderBody.items (body_s1\<lparr>orderBody.items := None\<rparr>) = None
   \<and> post_api_orders cast_ne None None 6000 ''6500000000000000000000b3''
        (body_s1\<lparr>orderBody.items := None\<rparr>) db0 =
       (Reply 400 (Failure ''Order must contain at least one item'' None), db0)
   \<and> orders db0 = [order_a, order_b]"
proof -
  have e: "orderBody.items (body_s1\<lparr>orderBody.items := Some []\<rparr>) = None
           \<or> orderBody.items (body_s1\<lparr>orderBody.items := Some []\<rparr>) = Some []"
    by simp
  have n: "orderBody.items (body_s1\<lparr>orderBody.items := None\<rparr>) = None
           \<or> orderBody.items (body_s1\<lparr>orderBody.items := None\<rparr>) = Some []"
    by simp
  show ?thesis
    using order_without_items_rejected [OF e, of cast_ne None None 6000 "''6500000000000000000000b3''" db0]
      order_without_items_rejected [OF n, of cast_ne None None 6000 "''6500000000000000000000b3''" db0]
    by (simp add: db0_def)
qed

text \<open>
  Claim C4. When an order-create request succeeds (status 201), the Order it appended to
  the collection, which is also the response body, has status pending; the \<^verbatim>\<open>status\<close> of the
  request body plays no part in the outcome.
\<close>

theorem created_order_is_pending:
  assumes "post_api_orders castq f_save f_delete now newId body db = (r, db')"
    and "code r = 201"
  shows "\<exists>ord. r = Reply 201 (Payload ord)
           \<and> orders db' = orders db @ [ord]
           \<and> order.status ord = ''pending''
           \<and> post_api_orders castq f_save f_delete now newId (body\<lparr>orderBody.status := st\<rparr>) db
               = (r, db')"
  using assms
  by (auto simp: post_api_orders_def Let_def save_order_def validate_order_def await_def
      split: option.splits if_splits sum.splits)

theorem created_order_is_pending_witness:
  "post_api_orders cast_ne None None 6000 ''6500000000000000000000b3'' body_s1 db0 =
     (Reply 201 (Payload order_c), db0\<lparr>orders := [order_a, order_b, order_c], carts := [cart_s2]\<rparr>)
   \<and> orderBody.status body_s1 = Some ''delivered''
   \<and> order.status order_c = ''pending''
   \<and> post_api_orders cast_ne None None 6000 ''6500000000000000000000b3''
        (body_s1\<lparr>orderBody.status := Some ''cancelled''\<rparr>) db0 =
     (Reply 201 (Payload order_c), db0\<lparr>orders := [order_a, order_b, order_c], carts := [cart_s2]\<rparr>)"
proof -
  have run: "post_api_orders cast_ne None None 6000 ''6500000000000000000000b3'' body_s1 db0 =
     (Reply 201 (Payload order_c), db0\<lparr>orders := [order_a, order_b, order_c], carts := [cart_s2]\<rparr>)"
    by (simp add: post_api_orders_def Let_def save_order_def validate_order_def await_def
        validStatuses_def findOneAndDelete_def sessionId_filter_def body_s1_def db0_def
        order_a_def order_b_def
        order_c_def cart_s1_def cart_s2_def)
  have ok: "code (Reply 201 (Payload order_c)) = 201" by simp
  show ?thesis
    using run created_order_is_pending [OF run ok, of "Some ''cancelled''"]
    by (simp add: body_s1_def order_c_def)
qed

text \<open>
  Claim C7. A menu-list request whose store call succeeds is answered with status 200 and
  exactly the MenuItem documents whose \<^verbatim>\<open>available\<close> is true, each as often as it is in the
  collection; no response to a menu-list request carries an item that is not available;
  the store is as before.
\<close>

theorem menu_list_only_available:
  assumes "get_api_menu f db = (r, db')"
  shows "db' = db
       \<and> (f = None \<longrightarrow>
            (\<exists>found. r = Reply 200 (Payload found)
               \<and> mset found = filter_mset available (mset (menuItems db))))
       \<and> (\<forall>found. content r = Payload found \<longrightarrow> list_all available found)"
  using assms
  by (auto simp: get_api_menu_def await_def list_all_iff split: option.splits)

theorem menu_list_only_available_witness:
  "get_api_menu None db0 = (Reply 200 (Payload [menu_fries]), db0)
   \<and> menuItems db0 = [menu_fries, menu_shakes]
   \<and> available menu_fries \<and> \<not> available menu_shakes
   \<and> mset [menu_fries] = filter_mset available (mset (menuItems db0))"
proof -
  have run: "get_api_menu None db0 = (Reply 200 (Payload [menu_fries]), db0)"
    by (simp add: get_api_menu_def await_def db0_def menu_fries_def menu_shakes_def)
  show ?thesis
    using run menu_list_only_available [OF run]
    by (simp add: db0_def menu_fries_def menu_shakes_def)
qed

text \<open>
  Claim C9. An order-list request whose store call succeeds is answered with status 200
  and all Order documents of the collection, each exactly once, in descending order of
  \<^verbatim>\<open>orderDate\<close>; the store is as before.
\<close>

theorem order_list_newest_first:
  assumes "get_api_orders None db = (r, db')"
  shows "\<exists>found. r = Reply 200 (Payload found) \<and> db' = db
           \<and> mset found = mset (orders db)
           \<and> sorted_wrt (\<lambda>a b. orderDate b \<le> orderDate a) found"
  using assms sort_desc_sorted [of orderDate "orders db"]
  by (auto simp: get_api_orders_def await_def sort_desc_perm)

theorem order_list_newest_first_witness:
  "get_api_orders None db0 = (Reply 200 (Payload [order_b, order_a]), db0)
   \<and> orders db0 = [order_a, order_b]
   \<and> orderDate order_a = 3000 \<and> orderDate order_b = 5000
   \<and> sorted_wrt (\<lambda>a b. orderDate b \<le> orderDate a) [order_b, order_a]"
proof -
  have run: "get_api_orders None db0 = (Reply 200 (Payload [order_b, order_a]), db0)"
    by (simp add: get_api_orders_def await_def sort_desc_def db0_def order_a_def order_b_def)
  show ?thesis
    using run order_list_newest_first [OF run]
    by (simp add: db0_def order_a_def order_b_def)
qed

text \<open>
  Claim C6. A cart-get request for a sessionId that no Cart of the collection has (the
  store calls succeeding) appends a new Cart with that sessionId and an empty items list
  and answers 200 with it; a second cart-get for the same sessionId answers 200 with the
  same Cart and leaves the store as the first request left it.
\<close>

theorem cart_get_creates_once:
  assumes "sid \<notin> set (map cart.sessionId (carts db))"
    and "sid \<noteq> []"
    and "newId \<notin> set (map cart.oid (carts db))"
  shows "get_api_cart None None now newId sid db =
           (Reply 200 (Payload (new_Cart newId now sid [])),
            db\<lparr>carts := carts db @ [new_Cart newId now sid []]\<rparr>)
       \<and> cart.items (new_Cart newId now sid []) = []
       \<and> get_api_cart None f_save' now' newId' sid
            (db\<lparr>carts := carts db @ [new_Cart newId now sid []]\<rparr>) =
           (Reply 200 (Payload (new_Cart newId now sid [])),
            db\<lparr>carts := carts db @ [new_Cart newId now sid []]\<rparr>)"
proof -
  from assms(1) have none: "find (\<lambda>c. cart.sessionId c = sid) (carts db) = None"
    by (simp add: find_None_key)
  have first: "get_api_cart None None now newId sid db =
           (Reply 200 (Payload (new_Cart newId now sid [])),
            db\<lparr>carts := carts db @ [new_Cart newId now sid []]\<rparr>)"
    using assms none
    by (simp add: get_api_cart_def await_def save_cart_def validate_cart_def new_Cart_def Let_def)
  have again: "get_api_cart None f_save' now' newId' sid
            (db\<lparr>carts := carts db @ [new_Cart newId now sid []]\<rparr>) =
           (Reply 200 (Payload (new_Cart newId now sid [])),
            db\<lparr>carts := carts db @ [new_Cart newId now sid []]\<rparr>)"
    using none by (simp add: get_api_cart_def await_def find_append_miss new_Cart_def Let_def)
  from first again show ?thesis by (simp add: new_Cart_def)
qed

theorem cart_get_creates_once_witness:
  "get_api_cart None None 7000 ''6500000000000000000000a9'' ''s9'' db0 =
     (Reply 200 (Payload (new_Cart ''6500000000000000000000a9'' 7000 ''s9'' [])),
      db0\<lparr>carts := [cart_s1, cart_s2, new_Cart ''6500000000000000000000a9'' 7000 ''s9'' []]\<rparr>)
   \<and> get_api_cart None (Some ''store is down'') 8000 ''6500000000000000000000aa'' ''s9''
       (db0\<lparr>carts := [cart_s1, cart_s2, new_Cart ''6500000000000000000000a9'' 7000 ''s9'' []]\<rparr>) =
     (Reply 200 (Payload (new_Cart ''6500000000000000000000a9'' 7000 ''s9'' [])),
      db0\<lparr>carts := [cart_s1, cart_s2, new_Cart ''6500000000000000000000a9'' 7000 ''s9'' []]\<rparr>)
   \<and> map cart.sessionId (carts db0) = [''s1'', ''s2'']"
proof -
  have a: "''s9'' \<notin> set (map cart.sessionId (carts db0))"
    by (simp add: db0_def cart_s1_def cart_s2_def)
  have b: "''s9'' \<noteq> []" by simp
  have c: "''6500000000000000000000a9'' \<notin> set (map cart.oid (carts db0))"
    by (simp add: db0_def cart_s1_def cart_s2_def)
  show ?thesis
    using cart_get_creates_once [OF a b c, of 7000 "Some ''store is down''" 8000
        "''6500000000000000000000aa''"]
    by (simp add: db0_def cart_s1_def cart_s2_def)
qed



text \<open>
  Claim C8, as stated: deleting a MenuItem or an Order by an identifier that matches no
  document fails with NotFound. It fails for the identifier \<^verbatim>\<open>abc\<close>, which matches no
  document and is not the string of an ObjectId: the cast throws inside the \<^verbatim>\<open>try\<close> block
  and both handlers answer 500.
\<close>

theorem delete_unmatched_id_counterexample:
  "''abc'' \<notin> set (map menuItem.oid (menuItems db0))
   \<and> delete_api_menu castObjectId None ''abc'' db0 =
       (Reply 500 (Failure ''Failed to delete menu item'' (Some ''Cast to ObjectId failed'')), db0)
   \<and> ''abc'' \<notin> set (map order.oid (orders db0))
   \<and> delete_api_orders castObjectId None ''abc'' db0 =
       (Reply 500 (Failure ''Failed to delete order'' (Some ''Cast to ObjectId failed'')), db0)"
  by (simp add: delete_api_menu_def delete_api_orders_def findByIdAndDelete_def await_def
      castObjectId_def castError_def db0_def menu_fries_def menu_shakes_def order_a_def
      order_b_def)

text \<open>
  Claim C8, amended. Deleting a MenuItem or an Order by an identifier that the driver
  casts to an ObjectId and that matches no document fails with NotFound (404) and leaves
  the store as it is; by an identifier that the cast refuses it fails with a server error
  (500), the store as it is. Deleting a Cart by sessionId answers 200 with the same
  confirmation message whether or not a Cart matched, and with no matching Cart the store
  is as before. (Store calls that do not reject.)
\<close>

theorem delete_unmatched_id:
  "(cast ident = Some k \<and> k \<notin> set (map menuItem.oid (menuItems db)) \<longrightarrow>
      delete_api_menu cast None ident db =
        (Reply 404 (Failure ''Menu item not found'' None), db))
   \<and> (cast ident = Some k \<and> k \<notin> set (map order.oid (orders db)) \<longrightarrow>
      delete_api_orders cast None ident db =
        (Reply 404 (Failure ''Order not found'' None), db))
   \<and> (cast ident = None \<longrightarrow>
      delete_api_menu cast None ident db =
        (Reply 500 (Failure ''Failed to delete menu item'' (Some castError)), db)
      \<and> delete_api_orders cast None ident db =
        (Reply 500 (Failure ''Failed to delete order'' (Some castError)), db))
   \<and> fst (delete_api_cart None sid db) = Reply 200 (Message ''Cart cleared successfully'')
   \<and> (sid \<notin> set (map cart.sessionId (carts db)) \<longrightarrow>
      delete_api_cart None sid db = (Reply 200 (Message ''Cart cleared successfully''), db))"
proof -
  have menu: "delete_api_menu cast None ident db =
        (Reply 404 (Failure ''Menu item not found'' None), db)"
    if "cast ident = Some k" "k \<notin> set (map menuItem.oid (menuItems db))"
  proof -
    from that(2) have "find (\<lambda>d. menuItem.oid d = k) (menuItems db) = None"
      by (simp add: find_None_key)
    with that(1) show ?thesis
      by (simp add: delete_api_menu_def findByIdAndDelete_def findOneAndDelete_def await_def)
  qed
  have ord: "delete_api_orders cast None ident db =
        (Reply 404 (Failure ''Order not found'' None), db)"
    if "cast ident = Some k" "k \<notin> set (map order.oid (orders db))"
  proof -
    from that(2) have "find (\<lambda>d. order.oid d = k) (orders db) = None"
      by (simp add: find_None_key)
    with that(1) show ?thesis
      by (simp add: delete_api_orders_def findByIdAndDelete_def findOneAndDelete_def await_def)
  qed
  have bad: "delete_api_menu cast None ident db =
        (Reply 500 (Failure ''Failed to delete menu item'' (Some castError)), db)
      \<and> delete_api_orders cast None ident db =
        (Reply 500 (Failure ''Failed to delete order'' (Some castError)), db)"
    if "cast ident = None"
    using that
    by (simp add: delete_api_menu_def delete_api_orders_def findByIdAndDelete_def await_def)
  have cart_reply: "fst (delete_api_cart None sid db) =
        Reply 200 (Message ''Cart cleared successfully'')"
    by (simp add: delete_api_cart_def findOneAndDelete_def await_def)
  have cart_same: "delete_api_cart None sid db =
        (Reply 200 (Message ''Cart cleared successfully''), db)"
    if "sid \<notin> set (map cart.sessionId (carts db))"
  proof -
    from that have "find (\<lambda>c. cart.sessionId c = sid) (carts db) = None"
      by (simp add: find_None_key)
    then show ?thesis
      by (simp add: delete_api_cart_def findOneAndDelete_def await_def delete_first_no_match)
  qed
  from menu ord bad cart_reply cart_same show ?thesis by blast
qed

theorem delete_unmatched_id_witness:
  "castObjectId ''6500000000000000000000FF'' = Some ''6500000000000000000000ff''
   \<and> delete_api_menu castObjectId None ''6500000000000000000000FF'' db0 =
       (Reply 404 (Failure ''Menu item not found'' None), db0)
   \<and> delete_api_orders castObjectId None ''6500000000000000000000FF'' db0 =
       (Reply 404 (Failure ''Order not found'' None), db0)
   \<and> castObjectId ''abc'' = None
   \<and> delete_api_menu castObjectId None ''abc'' db0 =
       (Reply 500 (Failure ''Failed to delete menu item'' (Some castError)), db0)
   \<and> delete_api_cart None ''s9'' db0 = (Reply 200 (Message ''Cart cleared successfully''), db0)
   \<and> delete_api_cart None ''s1'' db0 =
       (Reply 200 (Message ''Cart cleared successfully''), db0\<lparr>carts := [cart_s2]\<rparr>)"
proof -
  have ok: "castObjectId ''6500000000000000000000FF'' = Some ''6500000000000000000000ff''"
    by (simp add: castObjectId_def isHexDigit_def toLowerHex_def)
  have bad: "castObjectId ''abc'' = None"
    by (simp add: castObjectId_def)
  have m: "''6500000000000000000000ff'' \<notin> set (map menuItem.oid (menuItems db0))"
    by (simp add: db0_def menu_fries_def menu_shakes_def)
  have o: "''6500000000000000000000ff'' \<notin> set (map order.oid (orders db0))"
    by (simp add: db0_def order_a_def order_b_def)
  have c: "''s9'' \<notin> set (map cart.sessionId (carts db0))"
    by (simp add: db0_def cart_s1_def cart_s2_def)
  have s1: "delete_api_cart None ''s1'' db0 =
       (Reply 200 (Message ''Cart cleared successfully''), db0\<lparr>carts := [cart_s2]\<rparr>)"
    by (simp add: delete_api_cart_def findOneAndDelete_def await_def db0_def cart_s1_def
        cart_s2_def)
  show ?thesis
    using ok bad m o c s1
      delete_unmatched_id [of castObjectId "''6500000000000000000000FF''"
        "''6500000000000000000000ff''" db0 "''s9''"]
      delete_unmatched_id [of castObjectId "''abc''" "''6500000000000000000000ff''" db0 "''s9''"]
    by simp
qed

text \<open>
  Claim C3, as stated: a status patch with a status of the enum and an identifier that
  matches no order fails with NotFound. It fails for the identifier \<^verbatim>\<open>abc\<close>, which matches
  no order and is not the string of an ObjectId: the cast throws inside the \<^verbatim>\<open>try\<close> block
  and the handler answers 400 with its catch-all error.
\<close>

theorem status_patch_unmatched_id_counterexample:
  "''ready'' \<in> set validStatuses
   \<and> ''abc'' \<notin> set (map order.oid (orders db0))
   \<and> patch_api_orders_status castObjectId None ''abc'' (Some ''ready'') db0 =
       (Reply 400 (Failure ''Failed to update order status'' (Some ''Cast to ObjectId failed'')),
        db0)"
  by (simp add: patch_api_orders_status_def findByIdAndUpdate_def await_def castObjectId_def
      castError_def validStatuses_def db0_def order_a_def order_b_def)

text \<open>
  Claim C3, amended. A status patch whose status is absent or outside pending, confirmed,
  preparing, ready, delivered, cancelled fails with a client error (400, Invalid status)
  and leaves the store as it is, whatever the store call would do. With a status of the
  set and a store call that does not reject: an identifier that the driver casts to an
  ObjectId and that matches no order fails with NotFound (404); an identifier that the
  cast refuses fails with a client error (400); in both cases the store is as before;
  otherwise the handler answers 200 with the matched order carrying the supplied status,
  whatever its status was, that order is stored so, and no other order is changed.
\<close>

theorem status_patch_outcomes:
  "((body_status = None \<or> (\<exists>bad. body_status = Some bad \<and> bad \<notin> set validStatuses)) \<longrightarrow>
      patch_api_orders_status cast f ident body_status db =
        (Reply 400 (Failure ''Invalid status'' None), db))
   \<and> (st \<in> set validStatuses \<and> cast ident = Some k \<and> k \<notin> set (map order.oid (orders db)) \<longrightarrow>
      patch_api_orders_status cast None ident (Some st) db =
        (Reply 404 (Failure ''Order not found'' None), db))
   \<and> (st \<in> set validStatuses \<and> cast ident = None \<longrightarrow>
      patch_api_orders_status cast None ident (Some st) db =
        (Reply 400 (Failure ''Failed to update order status'' (Some castError)), db))
   \<and> (st \<in> set validStatuses \<and> cast ident = Some k
        \<and> find (\<lambda>d. order.oid d = k) (orders db) = Some ord \<longrightarrow>
      (\<exists>db'. patch_api_orders_status cast None ident (Some st) db =
               (Reply 200 (Payload (ord\<lparr>order.status := st\<rparr>)), db')
         \<and> menuItems db' = menuItems db \<and> carts db' = carts db
         \<and> length (orders db') = length (orders db)
         \<and> find (\<lambda>d. order.oid d = k) (orders db') = Some (ord\<lparr>order.status := st\<rparr>)
         \<and> filter (\<lambda>d. order.oid d \<noteq> k) (orders db') =
             filter (\<lambda>d. order.oid d \<noteq> k) (orders db)))"
proof -
  have invalid: "patch_api_orders_status cast f ident body_status db =
        (Reply 400 (Failure ''Invalid status'' None), db)"
    if "body_status = None \<or> (\<exists>bad. body_status = Some bad \<and> bad \<notin> set validStatuses)"
    using that by (auto simp: patch_api_orders_status_def)
  have missing: "patch_api_orders_status cast None ident (Some st) db =
        (Reply 404 (Failure ''Order not found'' None), db)"
    if "st \<in> set validStatuses" "cast ident = Some k" "k \<notin> set (map order.oid (orders db))"
  proof -
    from that(3) have "find (\<lambda>d. order.oid d = k) (orders db) = None"
      by (simp add: find_None_key)
    with that(1,2) show ?thesis
      by (simp add: patch_api_orders_status_def findByIdAndUpdate_def await_def)
  qed
  have malformed: "patch_api_orders_status cast None ident (Some st) db =
        (Reply 400 (Failure ''Failed to update order status'' (Some castError)), db)"
    if "st \<in> set validStatuses" "cast ident = None"
    using that by (simp add: patch_api_orders_status_def findByIdAndUpdate_def await_def)
  have found: "\<exists>db'. patch_api_orders_status cast None ident (Some st) db =
               (Reply 200 (Payload (ord\<lparr>order.status := st\<rparr>)), db')
         \<and> menuItems db' = menuItems db \<and> carts db' = carts db
         \<and> length (orders db') = length (orders db)
         \<and> find (\<lambda>d. order.oid d = k) (orders db') = Some (ord\<lparr>order.status := st\<rparr>)
         \<and> filter (\<lambda>d. order.oid d \<noteq> k) (orders db') =
             filter (\<lambda>d. order.oid d \<noteq> k) (orders db)"
    if v: "st \<in> set validStatuses" and c: "cast ident = Some k"
      and f: "find (\<lambda>d. order.oid d = k) (orders db) = Some ord"
  proof -
    let ?P = "\<lambda>d. order.oid d = k"
    let ?u = "\<lambda>d. d\<lparr>order.status := st\<rparr>"
    let ?os = "update_first ?P ?u (orders db)"
    have key: "order.oid ord = k" using find_Some_props [OF f] by simp
    have run: "patch_api_orders_status cast None ident (Some st) db =
                 (Reply 200 (Payload (?u ord)), db\<lparr>orders := ?os\<rparr>)"
      using v c f by (simp add: patch_api_orders_status_def findByIdAndUpdate_def await_def)
    have stored: "find ?P ?os = Some (?u ord)"
      using find_update_first [OF f, of ?u] key by simp
    have others: "filter (\<lambda>d. \<not> ?P d) ?os = filter (\<lambda>d. \<not> ?P d) (orders db)"
      by (rule update_first_keeps_others) simp
    show ?thesis
      using run stored others by (simp add: length_update_first)
  qed
  from invalid missing malformed found show ?thesis by blast
qed

theorem status_patch_outcomes_witness:
  "patch_api_orders_status castObjectId (Some ''store is down'') ''6500000000000000000000b1''
       (Some ''shipped'') db0 = (Reply 400 (Failure ''Invalid status'' None), db0)
   \<and> patch_api_orders_status castObjectId None ''6500000000000000000000ff'' (Some ''ready'') db0 =
       (Reply 404 (Failure ''Order not found'' None), db0)
   \<and> patch_api_orders_status castObjectId None ''abc'' (Some ''ready'') db0 =
       (Reply 400 (Failure ''Failed to update order status'' (Some castError)), db0)
   \<and> order.status order_a = ''delivered''
   \<and> patch_api_orders_status castObjectId None ''6500000000000000000000b1'' (Some ''pending'') db0 =
       (Reply 200 (Payload (order_a\<lparr>order.status := ''pending''\<rparr>)),
        db0\<lparr>orders := [order_a\<lparr>order.status := ''pending''\<rparr>, order_b]\<rparr>)"
proof -
  have shipped: "Some ''shipped'' = None
                 \<or> (\<exists>bad. Some ''shipped'' = Some bad \<and> bad \<notin> set validStatuses)"
    by (simp add: validStatuses_def)
  have ready: "''ready'' \<in> set validStatuses" and pending: "''pending'' \<in> set validStatuses"
    by (simp_all add: validStatuses_def)
  have ff: "castObjectId ''6500000000000000000000ff'' = Some ''6500000000000000000000ff''"
    by (simp add: castObjectId_def isHexDigit_def toLowerHex_def)
  have b1: "castObjectId ''6500000000000000000000b1'' = Some ''6500000000000000000000b1''"
    by (simp add: castObjectId_def isHexDigit_def toLowerHex_def)
  have abc: "castObjectId ''abc'' = None"
    by (simp add: castObjectId_def)
  have nomatch: "''6500000000000000000000ff'' \<notin> set (map order.oid (orders db0))"
    by (simp add: db0_def order_a_def order_b_def)
  have match: "find (\<lambda>d. order.oid d = ''6500000000000000000000b1'') (orders db0) = Some order_a"
    by (simp add: db0_def order_a_def order_b_def)
  have run: "patch_api_orders_status castObjectId None ''6500000000000000000000b1'' (Some ''pending'') db0 =
       (Reply 200 (Payload (order_a\<lparr>order.status := ''pending''\<rparr>)),
        db0\<lparr>orders := [order_a\<lparr>order.status := ''pending''\<rparr>, order_b]\<rparr>)"
    using pending b1
    by (simp add: patch_api_orders_status_def findByIdAndUpdate_def await_def db0_def
        order_a_def order_b_def)
  show ?thesis
    using shipped ready pending ff b1 abc nomatch match run
      status_patch_outcomes [of "Some ''shipped''" castObjectId "Some ''store is down''"
        "''6500000000000000000000b1''" db0 "''ready''" "''6500000000000000000000ff''" order_a]
      status_patch_outcomes [of "Some ''shipped''" castObjectId "Some ''store is down''"
        "''6500000000000000000000ff''" db0 "''ready''" "''6500000000000000000000ff''" order_a]
      status_patch_outcomes [of "Some ''shipped''" castObjectId "Some ''store is down''"
        "''abc''" db0 "''ready''" "''6500000000000000000000ff''" order_a]
      status_patch_outcomes [of "Some ''shipped''" castObjectId "Some ''store is down''"
        "''6500000000000000000000b1''" db0 "''pending''" "''6500000000000000000000b1''" order_a]
    by (simp add: order_a_def)
qed

text \<open>
  Claim C1, as stated. Two parts fail. First: a failure of the cart deletion that follows
  the insert of the order is not distinguished from success in the response. When the
  awaited \<^verbatim>\<open>Cart.findOneAndDelete\<close> rejects, the rejection is caught by the handler's
  \<^verbatim>\<open>catch\<close>, which answers 400 where the same request answers 201 when the deletion
  succeeds; the order has been inserted in both runs. Second: on success no Cart but the
  one whose sessionId equals the value of the body is touched. The handler passes the
  value on as the filter without looking at its type; with the operator object
  \<^verbatim>\<open>{ "$ne": "nobody" }\<close> the request succeeds and the Cart of the session \<^verbatim>\<open>s1\<close> is deleted.
\<close>

theorem order_create_cart_failure_counterexample:
  "post_api_orders cast_ne None (Some ''store is down'') 6000 ''6500000000000000000000b3''
       body_s1 db0 =
     (Reply 400 (Failure ''Failed to create order'' (Some ''store is down'')),
      db0\<lparr>orders := [order_a, order_b, order_c]\<rparr>)
   \<and> post_api_orders cast_ne None None 6000 ''6500000000000000000000b3'' body_s1 db0 =
     (Reply 201 (Payload order_c), db0\<lparr>orders := [order_a, order_b, order_c], carts := [cart_s2]\<rparr>)
   \<and> fst (post_api_orders cast_ne None (Some ''store is down'') 6000
            ''6500000000000000000000b3'' body_s1 db0)
       \<noteq> fst (post_api_orders cast_ne None None 6000 ''6500000000000000000000b3'' body_s1 db0)
   \<and> post_api_orders cast_ne None None 6000 ''6500000000000000000000b3''
        (body_s1\<lparr>orderBody.sessionId := Some (JObj [(''$ne'', JStr ''nobody'')])\<rparr>) db0 =
     (Reply 201 (Payload order_c), db0\<lparr>orders := [order_a, order_b, order_c], carts := [cart_s2]\<rparr>)
   \<and> carts db0 = [cart_s1, cart_s2]
   \<and> cart.sessionId cart_s1 = ''s1''"
  by (simp add: post_api_orders_def Let_def save_order_def validate_order_def await_def
      validStatuses_def findOneAndDelete_def sessionId_filter_def body_s1_def db0_def
      order_a_def order_b_def order_c_def cart_s1_def cart_s2_def)

text \<open>
  Claim C1, amended. An order-create request that succeeds (201) and carries a sessionId
  that is a string leaves the Carts collection without the Cart of that sessionId and
  with every other Cart as it was (on a store with the guaranteed keys of the Carts
  collection: sessionId unique and not empty). A request without a sessionId leaves the
  Carts collection as it was. When the cart deletion does not reject, the response is the
  same whether or not a Cart matched (it is the response to the same request on a store
  without Carts); when the cart deletion is attempted and rejects, the response is 400.
\<close>

theorem order_create_cart_effect:
  assumes "post_api_orders castq f_save f_delete now newId body db = (r, db')"
  shows "(code r = 201 \<and> orderBody.sessionId body = Some (JStr sid) \<and> carts_ok (carts db) \<longrightarrow>
          carts db' = filter (\<lambda>c. cart.sessionId c \<noteq> sid) (carts db))
       \<and> (orderBody.sessionId body = None \<longrightarrow> carts db' = carts db)
       \<and> (f_delete = None \<longrightarrow>
            r = fst (post_api_orders castq f_save None now newId body (db\<lparr>carts := []\<rparr>)))
       \<and> (orderBody.sessionId body = Some v \<and> truthy v \<and> f_delete \<noteq> None \<longrightarrow>
            code r = 400)"
proof -
  have deleted: "carts db' = filter (\<lambda>c. cart.sessionId c \<noteq> sid) (carts db)"
    if ok: "code r = 201" and s: "orderBody.sessionId body = Some (JStr sid)"
      and keys: "carts_ok (carts db)"
  proof -
    from keys have d: "distinct (map cart.sessionId (carts db))"
      and e: "[] \<notin> set (map cart.sessionId (carts db))"
      by (simp_all add: carts_ok_def)
    from assms ok obtain cs where
      del: "delete_session_cart castq f_delete (orderBody.sessionId body) (carts db) = Inr cs"
      and cs: "carts db' = cs"
      by (auto simp: post_api_orders_def Let_def split: option.splits if_splits sum.splits)
    from del s have str: "delete_session_cart castq f_delete (Some (JStr sid)) (carts db) = Inr cs"
      by simp
    show ?thesis
    proof (cases "sid = []")
      case True
      from e have "\<forall>c \<in> set (carts db). cart.sessionId c \<noteq> []" by force
      then have "filter (\<lambda>c. cart.sessionId c \<noteq> []) (carts db) = carts db"
        by (simp add: filter_id_conv)
      with True cs delete_session_cart_string [OF str] show ?thesis by simp
    next
      case False
      with cs delete_session_cart_string [OF str] delete_first_distinct_key [OF d, of sid]
      show ?thesis by simp
    qed
  qed
  have absent: "carts db' = carts db" if "orderBody.sessionId body = None"
    using assms that
    by (auto simp: post_api_orders_def Let_def split: option.splits if_splits sum.splits)
  have blind: "(delete_session_cart castq None s cs = Inl msg)
      = (delete_session_cart castq None s [] = Inl msg)" for s cs msg
    by (cases s)
      (auto simp: await_def findOneAndDelete_def split: sum.splits)
  have same: "r = fst (post_api_orders castq f_save None now newId body (db\<lparr>carts := []\<rparr>))"
    if "f_delete = None"
  proof -
    let ?d = "delete_session_cart castq None (orderBody.sessionId body)"
    have "fst (post_api_orders castq f_save None now newId body db) =
            fst (post_api_orders castq f_save None now newId body (db\<lparr>carts := []\<rparr>))"
    proof (cases "?d (carts db)")
      case (Inl msg)
      then have "?d [] = Inl msg" using blind by blast
      with Inl show ?thesis
        by (simp add: post_api_orders_def Let_def split: option.splits sum.splits)
    next
      case (Inr cs')
      then have "\<And>msg. ?d [] \<noteq> Inl msg" using blind [of "orderBody.sessionId body" "carts db"]
        by simp
      then obtain cs'' where "?d [] = Inr cs''" by (cases "?d []") auto
      with Inr show ?thesis
        by (simp add: post_api_orders_def Let_def split: option.splits sum.splits)
    qed
    with assms that show ?thesis by simp
  qed
  have rejected: "code r = 400"
    if "orderBody.sessionId body = Some v" "truthy v" "f_delete \<noteq> None"
    using assms that
    by (auto simp: post_api_orders_def Let_def await_def
        split: option.splits if_splits sum.splits)
  from deleted absent same rejected show ?thesis by blast
qed

theorem order_create_cart_effect_witness:
  "post_api_orders cast_ne None None 6000 ''6500000000000000000000b3'' body_s1 db0 =
     (Reply 201 (Payload order_c), db0\<lparr>orders := [order_a, order_b, order_c], carts := [cart_s2]\<rparr>)
   \<and> orderBody.sessionId body_s1 = Some (JStr ''s1'')
   \<and> carts db0 = [cart_s1, cart_s2]
   \<and> carts_ok (carts db0)
   \<and> [cart_s2] = filter (\<lambda>c. cart.sessionId c \<noteq> ''s1'') (carts db0)
   \<and> post_api_orders cast_ne None None 6000 ''6500000000000000000000b3''
        (body_s1\<lparr>orderBody.sessionId := None\<rparr>) db0 =
     (Reply 201 (Payload order_c), db0\<lparr>orders := [order_a, order_b, order_c]\<rparr>)
   \<and> fst (post_api_orders cast_ne None None 6000 ''6500000000000000000000b3'' body_s1
            (db0\<lparr>carts := []\<rparr>)) = Reply 201 (Payload order_c)
   \<and> post_api_orders cast_ne None (Some ''store is down'') 6000 ''6500000000000000000000b3''
        body_s1 db0 =
     (Reply 400 (Failure ''Failed to create order'' (Some ''store is down'')),
      db0\<lparr>orders := [order_a, order_b, order_c]\<rparr>)"
proof -
  have run1: "post_api_orders cast_ne None None 6000 ''6500000000000000000000b3'' body_s1 db0 =
     (Reply 201 (Payload order_c), db0\<lparr>orders := [order_a, order_b, order_c], carts := [cart_s2]\<rparr>)"
    by (simp add: post_api_orders_def Let_def save_order_def validate_order_def await_def
        validStatuses_def findOneAndDelete_def sessionId_filter_def body_s1_def db0_def
        order_a_def order_b_def order_c_def cart_s1_def cart_s2_def)
  have run2: "post_api_orders cast_ne None None 6000 ''6500000000000000000000b3''
        (body_s1\<lparr>orderBody.sessionId := None\<rparr>) db0 =
     (Reply 201 (Payload order_c), db0\<lparr>orders := [order_a, order_b, order_c]\<rparr>)"
    by (simp add: post_api_orders_def Let_def save_order_def validate_order_def await_def
        validStatuses_def body_s1_def db0_def order_a_def order_b_def order_c_def)
  have run3: "post_api_orders cast_ne None (Some ''store is down'') 6000
        ''6500000000000000000000b3'' body_s1 db0 =
     (Reply 400 (Failure ''Failed to create order'' (Some ''store is down'')),
      db0\<lparr>orders := [order_a, order_b, order_c]\<rparr>)"
    by (simp add: post_api_orders_def Let_def save_order_def validate_order_def await_def
        validStatuses_def body_s1_def db0_def order_a_def order_b_def order_c_def)
  have keys: "carts_ok (carts db0)"
    by (simp add: carts_ok_def db0_def cart_s1_def cart_s2_def)
  have sid: "orderBody.sessionId body_s1 = Some (JStr ''s1'')"
    by (simp add: body_s1_def)
  have c0: "carts db0 = [cart_s1, cart_s2]"
    by (simp add: db0_def)
  have kept: "[cart_s2] = filter (\<lambda>c. cart.sessionId c \<noteq> ''s1'') (carts db0)"
    using order_create_cart_effect [OF run1, of "''s1''"] keys sid by simp
  have blind: "fst (post_api_orders cast_ne None None 6000 ''6500000000000000000000b3'' body_s1
            (db0\<lparr>carts := []\<rparr>)) = Reply 201 (Payload order_c)"
    using order_create_cart_effect [OF run1, of "''s1''"] by simp
  show ?thesis
    by (intro conjI) (rule run1 sid c0 keys kept run2 blind run3)+
qed

end
